theory Spec2Isabelle
  imports Main "HOL-Library.Sublist"
begin

section \<open>Text operations\<close>

text \<open>
  File contents and names are JavaScript strings; they are modelled as \<open>string\<close>
  (a list of characters).  \<open>s.includes(sub)\<close> holds when \<open>sub\<close> occurs in \<open>s\<close> as a
  contiguous run of characters, at some position from \<open>0\<close> to \<open>length s\<close>.
\<close>

fun str_includes :: "string \<Rightarrow> string \<Rightarrow> bool" where
  "str_includes [] sub = (sub = [])"
| "str_includes (c # cs) sub = (prefix sub (c # cs) \<or> str_includes cs sub)"

text \<open>
  The number of positions of \<open>s\<close> at which \<open>sub\<close> occurs.  The source has no such
  function; it is the measure by which ``exactly once'' is stated.
\<close>

fun occurrences :: "string \<Rightarrow> string \<Rightarrow> nat" where
  "occurrences [] sub = (if sub = [] then 1 else 0)"
| "occurrences (c # cs) sub = (if prefix sub (c # cs) then 1 else 0) + occurrences cs sub"

text \<open>
  The number of positions inside \<open>xs\<close> at which \<open>sub\<close> occurs in \<open>xs @ ys\<close>: the
  occurrences that start in the first part of a concatenation.
\<close>

fun starts :: "string \<Rightarrow> string \<Rightarrow> string \<Rightarrow> nat" where
  "starts [] ys sub = 0"
| "starts (x # xs) ys sub = (if prefix sub (x # xs @ ys) then 1 else 0) + starts xs ys sub"

text \<open>
  \<open>s.replace(pattern, replacement)\<close> with a string pattern replaces the first
  occurrence only, and returns \<open>s\<close> itself when there is none.  \<open>splitAtFirst\<close> finds
  that occurrence and returns the text before and after it.
\<close>

fun splitAtFirst :: "string \<Rightarrow> string \<Rightarrow> (string \<times> string) option" where
  "splitAtFirst [] pat = (if pat = [] then Some ([], []) else None)"
| "splitAtFirst (c # cs) pat =
     (if prefix pat (c # cs) then Some ([], drop (length pat) (c # cs))
      else map_option (\<lambda>(before, after). (c # before, after)) (splitAtFirst cs pat))"

text \<open>
  The replacement text is a template: \<open>$$\<close> stands for a dollar sign, \<open>$&\<close> for the
  matched text, a dollar sign followed by a backquote for the text before the match
  and by an apostrophe for the text after it.  A dollar sign followed by anything else
  (a digit included, since a string pattern has no capture groups) stands for itself.
\<close>

fun getSubstitution :: "string \<Rightarrow> string \<Rightarrow> string \<Rightarrow> string \<Rightarrow> string" where
  "getSubstitution matched before after (c # d # t) =
     (if c = CHR ''$'' then
        (if d = CHR ''$'' then CHR ''$'' # getSubstitution matched before after t
         else if d = CHR ''&'' then matched @ getSubstitution matched before after t
         else if d = CHR 0x60 then before @ getSubstitution matched before after t
         else if d = CHR 0x27 then after @ getSubstitution matched before after t
         else c # getSubstitution matched before after (d # t))
      else c # getSubstitution matched before after (d # t))"
| "getSubstitution matched before after t = t"

definition str_replace :: "string \<Rightarrow> string \<Rightarrow> string \<Rightarrow> string" where
  "str_replace s pat replacement =
     (case splitAtFirst s pat of
        None \<Rightarrow> s
      | Some (before, after) \<Rightarrow> before @ getSubstitution pat before after replacement @ after)"

text \<open>\<open>parts.join(sep)\<close> of an array of strings.\<close>

fun str_join :: "string \<Rightarrow> string list \<Rightarrow> string" where
  "str_join sep [] = []"
| "str_join sep [x] = x"
| "str_join sep (x # y # ys) = x @ sep @ str_join sep (y # ys)"

abbreviation apos :: string where
  "apos \<equiv> [CHR 0x27]"

section \<open>The file system, the user interface and the trace of effects\<close>

text \<open>
  A path is the list of its components.  \<open>path.join\<close> skips empty arguments, so
  joining the empty name to a directory gives the directory itself.  Every name is
  taken as one component: names holding a separator or a dot component are outside
  the model.
\<close>

type_synonym path = "string list"

definition path_join :: "path \<Rightarrow> string list \<Rightarrow> path" where
  "path_join base names = base @ filter (\<lambda>n. n \<noteq> []) names"

record fsys =
  files :: "path \<rightharpoonup> string"
  dirs :: "path set"

text \<open>
  Every call with an effect outside the program is recorded, in order, whether or not
  it succeeds: running a process, writing a file, creating a directory, and the two
  kinds of notification shown to the user.
\<close>

datatype event =
    Exec string "path option"
  | WriteFile path string
  | MkDir path
  | ShowError string
  | ShowInfo string

record world =
  fs :: fsys
  trace :: "event list"

definition log_event :: "event \<Rightarrow> world \<Rightarrow> world" where
  "log_event e w = w\<lparr>trace := trace w @ [e]\<rparr>"

definition showErrorMessage :: "string \<Rightarrow> world \<Rightarrow> world" where
  "showErrorMessage msg w = log_event (ShowError msg) w"

definition showInformationMessage :: "string \<Rightarrow> world \<Rightarrow> world" where
  "showInformationMessage msg w = log_event (ShowInfo msg) w"

definition existsSync :: "path \<Rightarrow> world \<Rightarrow> bool" where
  "existsSync p w = (p \<in> dom (files (fs w)) \<or> p \<in> dirs (fs w))"

text \<open>
  \<open>readFileSync\<close> throws (here: \<open>None\<close>) on a directory and on a missing file.
\<close>

definition readFileSync :: "path \<Rightarrow> world \<Rightarrow> string option" where
  "readFileSync p w = (if p \<in> dirs (fs w) then None else files (fs w) p)"

text \<open>
  A function that may throw returns \<open>Inl\<close> of the world at the throw, \<open>Inr\<close> of the
  world at its normal end.  \<open>writeFileSync\<close> throws when the target is a directory, and
  when the target is new and its parent directory does not exist; otherwise it
  replaces the whole content.  Failures from permissions or devices are not modelled.
\<close>

definition writeFileSync :: "path \<Rightarrow> string \<Rightarrow> world \<Rightarrow> world + world" where
  "writeFileSync p content w =
     (let w' = log_event (WriteFile p content) w in
      if p \<notin> dirs (fs w) \<and> (p \<in> dom (files (fs w)) \<or> butlast p \<in> dirs (fs w))
      then Inr (w'\<lparr>fs := (fs w)\<lparr>files := (files (fs w))(p \<mapsto> content)\<rparr>\<rparr>)
      else Inl w')"

definition and_then :: "world + world \<Rightarrow> (world \<Rightarrow> world + world) \<Rightarrow> world + world" where
  "and_then r f = (case r of Inl w \<Rightarrow> Inl w | Inr w \<Rightarrow> f w)"

definition try_catch :: "world + world \<Rightarrow> (world \<Rightarrow> world) \<Rightarrow> world" where
  "try_catch r handler = (case r of Inl w \<Rightarrow> handler w | Inr w \<Rightarrow> w)"

text \<open>
  \<open>mkdirSync(p, {recursive: true})\<close> creates the directory and every missing ancestor;
  an existing directory is not an error, a regular file on the way is.
\<close>

definition mkdirSync_recursive :: "path \<Rightarrow> world \<Rightarrow> world + world" where
  "mkdirSync_recursive p w =
     (let w' = log_event (MkDir p) w in
      if list_ex (\<lambda>q. q \<in> dom (files (fs w))) (prefixes p) then Inl w'
      else Inr (w'\<lparr>fs := (fs w)\<lparr>dirs := dirs (fs w) \<union> set (prefixes p)\<rparr>\<rparr>))"

text \<open>
  An external process is not part of the program: what a command does to the file
  system, and whether it exits with success, is a parameter of the model.
  \<open>execSync\<close> throws when the command fails.
\<close>

type_synonym process = "string \<Rightarrow> path option \<Rightarrow> fsys \<Rightarrow> bool \<times> fsys"

definition execSync :: "process \<Rightarrow> string \<Rightarrow> path option \<Rightarrow> world \<Rightarrow> world + world" where
  "execSync run command cwd w =
     (case run command cwd (fs w) of
        (ok, fs') \<Rightarrow>
          if ok then Inr ((log_event (Exec command cwd) w)\<lparr>fs := fs'\<rparr>)
          else Inl ((log_event (Exec command cwd) w)\<lparr>fs := fs'\<rparr>))"

fun isExec :: "event \<Rightarrow> bool" where
  "isExec (Exec command cwd) = True"
| "isExec e = False"

fun isWrite :: "event \<Rightarrow> bool" where
  "isWrite (WriteFile p content) = True"
| "isWrite e = False"

section \<open>The static-configuration patcher\<close>

definition staticMarker :: string where
  "staticMarker = ''STATICFILES_DIRS''"

definition staticBlock :: string where
  "staticBlock = ''\<newline>\<newline>// Static files (CSS, JavaScript, Images)\<newline>import os\<newline>STATIC_URL = '/static/'\<newline>STATICFILES_DIRS = [os.path.join(BASE_DIR, 'static')]\<newline>STATIC_ROOT = os.path.join(BASE_DIR, 'staticfiles')\<newline>            ''"

definition settingsFilePath :: "path \<Rightarrow> string \<Rightarrow> path" where
  "settingsFilePath workspaceFolder projectName =
     path_join (path_join workspaceFolder [projectName]) [projectName, ''settings.py'']"

definition setupStaticConfiguration :: "path \<Rightarrow> string \<Rightarrow> world \<Rightarrow> world" where
  "setupStaticConfiguration workspaceFolder projectName w =
     try_catch
       (if \<not> existsSync (settingsFilePath workspaceFolder projectName) w
        then Inr (showErrorMessage (''settings.py not found in project '' @ projectName @ ''.'') w)
        else
          (case readFileSync (settingsFilePath workspaceFolder projectName) w of
             None \<Rightarrow> Inl w
           | Some settingsContent \<Rightarrow>
               if \<not> str_includes settingsContent staticMarker
               then and_then
                      (writeFileSync (settingsFilePath workspaceFolder projectName)
                         (settingsContent @ staticBlock) w)
                      (\<lambda>w1. Inr (showInformationMessage
                         ''Static files configuration added to settings.py.'' w1))
               else Inr (showInformationMessage
                      ''Static files configuration already exists in settings.py.'' w)))
       (showErrorMessage ''Failed to add static files configuration to settings.py.'')"

section \<open>The template files and the routing splice\<close>

definition indexHtmlContent :: "string \<Rightarrow> string" where
  \<open>indexHtmlContent appName =
     ''\<newline><!DOCTYPE html>\<newline><html lang="en">\<newline><head>\<newline>    <meta charset="UTF-8">\<newline>    <meta name="viewport" content="width=device-width, initial-scale=1.0">\<newline>    <title>Welcome to ''
     @ appName @ ''</title>\<newline></head>\<newline><body>\<newline>    <h1>Hello from ''
     @ appName @ ''!</h1>\<newline></body>\<newline></html>\<newline>        ''\<close>

definition viewsContent :: "string \<Rightarrow> string" where
  "viewsContent appName =
     ''\<newline>from django.shortcuts import render\<newline>\<newline>def index(request):\<newline>    return render(request, ''
     @ apos @ appName @ ''/index.html')\<newline>        ''"

definition urlsContent :: string where
  "urlsContent =
     ''\<newline>from django.urls import path\<newline>from . import views\<newline>\<newline>urlpatterns = [\<newline>    path(''
     @ apos @ apos @ '', views.index, name='index'),\<newline>]\<newline>        ''"

definition includeMarker :: "string \<Rightarrow> string" where
  "includeMarker appName = ''include('' @ apos @ appName @ ''.urls'' @ apos @ '')''"

definition urlsAnchor :: string where
  "urlsAnchor = ''urlpatterns = [''"

definition includeReplacement :: "string \<Rightarrow> string" where
  "includeReplacement appName =
     ''from django.urls import include\<newline>\<newline>urlpatterns = [\<newline>    path(''
     @ apos @ appName @ ''/'' @ apos @ '', include('' @ apos @ appName @ ''.urls'' @ apos @ '')),''"

definition projectUrlsFilePath :: "path \<Rightarrow> string \<Rightarrow> path" where
  "projectUrlsFilePath workspaceFolder projectName =
     path_join workspaceFolder [projectName, projectName, ''urls.py'']"

text \<open>The paths \<open>setupIndexHtml\<close> computes.\<close>

definition appDir :: "path \<Rightarrow> string \<Rightarrow> string \<Rightarrow> path" where
  "appDir workspaceFolder projectName appName = path_join workspaceFolder [projectName, appName]"

definition templatesDir :: "path \<Rightarrow> string \<Rightarrow> string \<Rightarrow> path" where
  "templatesDir workspaceFolder projectName appName =
     path_join (appDir workspaceFolder projectName appName) [''templates'', appName]"

definition indexHtmlPath :: "path \<Rightarrow> string \<Rightarrow> string \<Rightarrow> path" where
  "indexHtmlPath workspaceFolder projectName appName =
     path_join (templatesDir workspaceFolder projectName appName) [''index.html'']"

definition viewsFilePath :: "path \<Rightarrow> string \<Rightarrow> string \<Rightarrow> path" where
  "viewsFilePath workspaceFolder projectName appName =
     path_join (appDir workspaceFolder projectName appName) [''views.py'']"

definition urlsFilePath :: "path \<Rightarrow> string \<Rightarrow> string \<Rightarrow> path" where
  "urlsFilePath workspaceFolder projectName appName =
     path_join (appDir workspaceFolder projectName appName) [''urls.py'']"

text \<open>
  \<open>setupIndexHtml\<close> is one \<open>try\<close> block.  Its first part creates the templates
  directory and writes the three template files, each unconditionally.
\<close>

definition writeTemplateFiles :: "path \<Rightarrow> string \<Rightarrow> string \<Rightarrow> world \<Rightarrow> world + world" where
  "writeTemplateFiles workspaceFolder projectName appName w =
     and_then (mkdirSync_recursive (templatesDir workspaceFolder projectName appName) w) (\<lambda>w1.
     and_then (writeFileSync (indexHtmlPath workspaceFolder projectName appName)
                 (indexHtmlContent appName) w1) (\<lambda>w2.
     and_then (writeFileSync (viewsFilePath workspaceFolder projectName appName)
                 (viewsContent appName) w2) (\<lambda>w3.
     writeFileSync (urlsFilePath workspaceFolder projectName appName) urlsContent w3)))"

text \<open>
  Its second part registers the app's routes in the project's \<open>urls.py\<close>: when the
  content read does not hold the include directive, the first anchor line is replaced
  and the result is written back, whatever the replacement did.
\<close>

definition registerAppUrls :: "path \<Rightarrow> string \<Rightarrow> string \<Rightarrow> world \<Rightarrow> world + world" where
  "registerAppUrls workspaceFolder projectName appName w =
     (case readFileSync (projectUrlsFilePath workspaceFolder projectName) w of
        None \<Rightarrow> Inl w
      | Some projectUrlsContent \<Rightarrow>
          if \<not> str_includes projectUrlsContent (includeMarker appName)
          then writeFileSync (projectUrlsFilePath workspaceFolder projectName)
                 (str_replace projectUrlsContent urlsAnchor (includeReplacement appName)) w
          else Inr w)"

definition setupIndexHtml :: "path \<Rightarrow> string \<Rightarrow> string \<Rightarrow> world \<Rightarrow> world" where
  "setupIndexHtml workspaceFolder projectName appName w =
     try_catch
       (and_then (writeTemplateFiles workspaceFolder projectName appName w) (\<lambda>w1.
        and_then (registerAppUrls workspaceFolder projectName appName w1) (\<lambda>w2.
        Inr (showInformationMessage ''index.html, views.py, and urls.py have been set up.'' w2))))
       (showErrorMessage ''Failed to set up index.html, views.py, and urls.py.'')"

section \<open>The workspace pipeline\<close>

text \<open>
  \<open>setupDjangoWorkspace\<close> of \<open>src/src/extension.ts\<close>.  The answers the user gives to
  the two quick picks are inputs: \<open>None\<close> is a dismissed pick.
\<close>

definition setupDjangoWorkspace ::
  "process \<Rightarrow> path \<Rightarrow> string \<Rightarrow> string \<Rightarrow> string option \<Rightarrow> string option \<Rightarrow> world \<Rightarrow> world" where
  "setupDjangoWorkspace run workspaceFolder projectName appName setupStatic setupIndex w =
     (case execSync run ''python --version'' None w of
        Inl w1 \<Rightarrow> showErrorMessage
          ''Python is not installed or not added to PATH. Please fix this before proceeding.'' w1
      | Inr w1 \<Rightarrow>
          if existsSync (path_join workspaceFolder [projectName]) w1
          then showErrorMessage (''The project folder '' @ projectName @ '' already exists.'') w1
          else
            (case execSync run (''django-admin startproject '' @ projectName)
                    (Some workspaceFolder) w1 of
               Inl w2 \<Rightarrow> showErrorMessage
                 (''Failed to create the Django project '' @ apos @ projectName @ apos @ ''.'') w2
             | Inr w2 \<Rightarrow>
                 (case
                    (if appName \<noteq> []
                     then
                       (case execSync run (''python manage.py startapp '' @ appName)
                               (Some (path_join workspaceFolder [projectName]))
                               (showInformationMessage
                                  (''Django project '' @ apos @ projectName @ apos
                                     @ '' created successfully!'') w2) of
                          Inl w3 \<Rightarrow> Inl (showErrorMessage
                            (''Failed to create the Django app '' @ apos @ appName @ apos @ ''.'') w3)
                        | Inr w3 \<Rightarrow> Inr (showInformationMessage
                            (''Django app '' @ apos @ appName @ apos @ '' created successfully in ''
                               @ apos @ projectName @ apos @ ''!'') w3))
                     else Inr (showInformationMessage
                            (''Django project '' @ apos @ projectName @ apos
                               @ '' created successfully!'') w2)) of
                    Inl w4 \<Rightarrow> w4
                  | Inr w4 \<Rightarrow>
                      (let w5 =
                         (if setupStatic = Some ''Yes''
                          then setupStaticConfiguration workspaceFolder projectName w4
                          else if setupStatic = Some ''No''
                          then showInformationMessage ''Static files setup skipped.'' w4
                          else w4)
                       in if setupIndex = Some ''Yes''
                          then setupIndexHtml workspaceFolder projectName appName w5
                          else if setupIndex = Some ''No''
                          then showInformationMessage ''Index, views, and urls setup skipped.'' w5
                          else w5))))"

text \<open>
  The command registered by \<open>activate\<close>.  \<open>workspaceFolder\<close> is the path of the first
  workspace folder, empty when no folder is open.  The two input boxes return the
  text the user accepted, or nothing (\<open>None\<close>) when the user dismissed the box; a
  box accepts a text only when its validator returns no message for it.  The test of
  the app name against \<open>/^[a-zA-Z0-9_]+$/\<close> holds for a non-empty text of letters,
  digits and underscores.  A dismissed or empty project name stops the command; a
  dismissed app name is replaced by the empty text.
\<close>

definition validateProjectName :: "path \<Rightarrow> world \<Rightarrow> string \<Rightarrow> string option" where
  "validateProjectName workspaceFolder w value =
     (if value = [] then Some ''Project name is required''
      else if existsSync (path_join workspaceFolder [value]) w then Some ''Project already exists''
      else None)"

definition isWordChar :: "char \<Rightarrow> bool" where
  "isWordChar c =
     (let n = (of_char c :: nat)
      in (97 \<le> n \<and> n \<le> 122) \<or> (65 \<le> n \<and> n \<le> 90) \<or> (48 \<le> n \<and> n \<le> 57) \<or> n = 95)"

definition validateAppName :: "string \<Rightarrow> string option" where
  "validateAppName value =
     (if value \<noteq> [] \<and> \<not> (value \<noteq> [] \<and> list_all isWordChar value)
      then Some ''App name should contain only letters, numbers, or underscores''
      else None)"

definition setupWorkspaceCmd ::
  "process \<Rightarrow> path \<Rightarrow> string option \<Rightarrow> string option \<Rightarrow> string option \<Rightarrow> string option
     \<Rightarrow> world \<Rightarrow> world" where
  "setupWorkspaceCmd run workspaceFolder projectNameInput appNameInput setupStatic setupIndex w =
     (if workspaceFolder = []
      then showErrorMessage ''Please open a folder before running this command.'' w
      else
        (case projectNameInput of
           None \<Rightarrow> showErrorMessage ''No project name entered!'' w
         | Some projectName \<Rightarrow>
             if projectName = [] then showErrorMessage ''No project name entered!'' w
             else setupDjangoWorkspace run workspaceFolder projectName
                    (case appNameInput of None \<Rightarrow> [] | Some appName \<Rightarrow> appName)
                    setupStatic setupIndex w))"

section \<open>The earlier pipeline with the dependency manifest\<close>

text \<open>
  \<open>setupDjangoWorkspace\<close> of the first file of \<open>src/unnamed/part_000\<close>: after the
  project and the app it sets up a virtual environment, writes \<open>requirements.txt\<close>
  and the editor settings.  The directory of the editor settings is created outside
  every \<open>try\<close> block, so the function itself can throw: \<open>Inl\<close> is the world at an
  exception that nothing catches.
\<close>

definition requirements :: "string list" where
  "requirements = [''Django==3.2.6'', ''djangorestframework==3.12.4'']"

definition settingsJson :: string where
  \<open>settingsJson =
     ''{\<newline>  "python.pythonPath": "venv/bin/python",\<newline>  "python.linting.enabled": true,\<newline>  "python.linting.pylintEnabled": true,\<newline>  "python.formatting.autopep8Path": "autopep8"\<newline>}''\<close>

definition setUpMessage :: "string \<Rightarrow> string" where
  "setUpMessage projectName =
     ''Django workspace for project '' @ apos @ projectName @ apos @ '' is set up!''"

definition setupDjangoWorkspace_part_000 ::
  "process \<Rightarrow> path \<Rightarrow> string \<Rightarrow> string \<Rightarrow> world \<Rightarrow> world + world" where
  "setupDjangoWorkspace_part_000 run workspaceFolder projectName appName w =
     (case execSync run ''python --version'' None w of
        Inl w1 \<Rightarrow> Inr (showErrorMessage
          ''Python is not installed or not added to PATH. Please fix this before proceeding.'' w1)
      | Inr w1 \<Rightarrow>
          if existsSync (path_join workspaceFolder [projectName]) w1
          then Inr (showErrorMessage
                 (''The project folder '' @ projectName @ '' already exists.'') w1)
          else
            (case execSync run (''django-admin startproject '' @ projectName)
                    (Some workspaceFolder) w1 of
               Inl w2 \<Rightarrow> Inr (showErrorMessage
                 (''Failed to create the Django project '' @ apos @ projectName @ apos @ ''.'') w2)
             | Inr w2 \<Rightarrow>
                 (case
                    (if appName \<noteq> []
                     then
                       (case execSync run (''python manage.py startapp '' @ appName)
                               (Some (path_join workspaceFolder [projectName]))
                               (showInformationMessage
                                  (''Django project '' @ apos @ projectName @ apos
                                     @ '' created successfully!'') w2) of
                          Inl w3 \<Rightarrow> Inl (showErrorMessage
                            (''Failed to create the Django app '' @ apos @ appName @ apos @ ''.'') w3)
                        | Inr w3 \<Rightarrow> Inr (showInformationMessage
                            (''Django app '' @ apos @ appName @ apos @ '' created successfully in ''
                               @ apos @ projectName @ apos @ ''!'') w3))
                     else Inr (showInformationMessage
                            (''Django project '' @ apos @ projectName @ apos
                               @ '' created successfully!'') w2)) of
                    Inl w4 \<Rightarrow> Inr w4
                  | Inr w4 \<Rightarrow>
                      (case and_then
                              (execSync run ''python -m venv venv''
                                 (Some (path_join workspaceFolder [projectName])) w4)
                              (execSync run ''pip install -r requirements.txt''
                                 (Some (path_join workspaceFolder [projectName]))) of
                         Inl w5 \<Rightarrow> Inr (showErrorMessage
                           ''Failed to set up the virtual environment.'' w5)
                       | Inr w5 \<Rightarrow>
                           (case writeFileSync
                                   (path_join (path_join workspaceFolder [projectName])
                                      [''requirements.txt''])
                                   (str_join ''\<newline>'' requirements) w5 of
                              Inl w6 \<Rightarrow> Inr (showErrorMessage
                                ''Failed to create the requirements.txt file.'' w6)
                            | Inr w6 \<Rightarrow>
                                (case mkdirSync_recursive
                                        (path_join (path_join workspaceFolder [projectName])
                                           [''.vscode'']) w6 of
                                   Inl w7 \<Rightarrow> Inl w7
                                 | Inr w7 \<Rightarrow>
                                     (case writeFileSync
                                             (path_join
                                                (path_join (path_join workspaceFolder [projectName])
                                                   [''.vscode''])
                                                [''settings.json''])
                                             settingsJson w7 of
                                        Inl w8 \<Rightarrow> Inr (showErrorMessage
                                          ''Failed to create VSCode settings.'' w8)
                                      | Inr w8 \<Rightarrow> Inr (showInformationMessage
                                          (setUpMessage projectName) w8))))))))"

text \<open>
  The world a function that may throw ends in, and the success of the earlier pipeline:
  it returns normally and the last thing it did was to report that the workspace is set
  up (every other path ends with an error notification or an exception).
\<close>

definition finalWorld :: "world + world \<Rightarrow> world" where
  "finalWorld r = (case r of Inl w \<Rightarrow> w | Inr w \<Rightarrow> w)"

definition succeeded :: "string \<Rightarrow> world + world \<Rightarrow> bool" where
  "succeeded projectName r =
     (case r of
        Inl w \<Rightarrow> False
      | Inr w \<Rightarrow> trace w \<noteq> [] \<and> last (trace w) = ShowInfo (setUpMessage projectName))"

section \<open>Sample worlds\<close>

text \<open>
  A workspace \<open>ws\<close> holding a generated project \<open>blog\<close> whose settings file has the
  given content.
\<close>

definition settingsWorld :: "string \<Rightarrow> world" where
  "settingsWorld content =
     \<lparr>fs = \<lparr>files = [[''ws'', ''blog'', ''blog'', ''settings.py''] \<mapsto> content],
             dirs = {[''ws''], [''ws'', ''blog''], [''ws'', ''blog'', ''blog'']}\<rparr>,
      trace = []\<rparr>"

text \<open>
  A sample behaviour of the external commands, for evaluating the pipeline on concrete
  inputs: the version probe and the installer succeed and change nothing, the project
  generator creates the project tree with a settings file and a routing file, the app
  generator creates the app directory.
\<close>

definition generatedSettings :: string where
  "generatedSettings = ''DEBUG = True\<newline>''"

definition generatedUrls :: string where
  "generatedUrls = ''from django.urls import path\<newline>\<newline>urlpatterns = [\<newline>]\<newline>''"

definition sampleProcess :: process where
  "sampleProcess command cwd f =
     (case cwd of
        None \<Rightarrow> (True, f)
      | Some dir \<Rightarrow>
          if prefix ''django-admin startproject '' command
          then
            (let name = drop (length ''django-admin startproject '') command
             in (True,
                 \<lparr>files = (files f)
                    (dir @ [name, name, ''settings.py''] \<mapsto> generatedSettings,
                     dir @ [name, name, ''urls.py''] \<mapsto> generatedUrls),
                  dirs = dirs f \<union> {dir @ [name], dir @ [name, name]}\<rparr>))
          else if prefix ''python manage.py startapp '' command
          then (True, f\<lparr>dirs := dirs f \<union> {dir @ [drop (length ''python manage.py startapp '') command]}\<rparr>)
          else (True, f))"

text \<open>
  The same commands with an installer that needs its manifest: it succeeds only when
  \<open>requirements.txt\<close> is a file of the directory it runs in.
\<close>

definition strictProcess :: process where
  "strictProcess command cwd f =
     (case cwd of
        None \<Rightarrow> sampleProcess command cwd f
      | Some dir \<Rightarrow>
          if command = ''pip install -r requirements.txt''
          then (dir @ [''requirements.txt''] \<in> dom (files f), f)
          else sampleProcess command cwd f)"

text \<open>
  An empty workspace \<open>ws\<close>; the same workspace with a directory \<open>blog\<close> already in
  it; and a generated project \<open>blog\<close> with an app directory \<open>posts\<close> whose routing file
  has the given content.
\<close>

definition emptyWorkspace :: world where
  "emptyWorkspace = \<lparr>fs = \<lparr>files = Map.empty, dirs = {[''ws'']}\<rparr>, trace = []\<rparr>"

definition occupiedWorkspace :: world where
  "occupiedWorkspace = \<lparr>fs = \<lparr>files = Map.empty, dirs = {[''ws''], [''ws'', ''blog'']}\<rparr>, trace = []\<rparr>"

definition projectWorld :: "string \<Rightarrow> world" where
  "projectWorld urlsText =
     \<lparr>fs = \<lparr>files = [[''ws'', ''blog'', ''blog'', ''urls.py''] \<mapsto> urlsText],
             dirs = {[''ws''], [''ws'', ''blog''], [''ws'', ''blog'', ''blog''],
                     [''ws'', ''blog'', ''posts'']}\<rparr>,
      trace = []\<rparr>"

section \<open>Facts about substrings\<close>

lemma str_includes_sublist: "str_includes s sub \<longleftrightarrow> sublist sub s"
  by (induction s) (auto simp: sublist_Cons_right)

lemma suffix_includes: "suffix d c \<Longrightarrow> str_includes d sub \<Longrightarrow> str_includes c sub"
  by (meson str_includes_sublist sublist_order.order.trans suffix_imp_sublist)

lemma prefix_includes: "prefix sub d \<Longrightarrow> str_includes d sub"
  by (simp add: str_includes_sublist)

lemma includes_trans: "str_includes b a \<Longrightarrow> str_includes c b \<Longrightarrow> str_includes c a"
  by (meson str_includes_sublist sublist_order.order.trans)

lemma includes_appendI1: "str_includes xs sub \<Longrightarrow> str_includes (xs @ ys) sub"
  by (auto simp: str_includes_sublist sublist_append)

lemma includes_appendI2: "str_includes ys sub \<Longrightarrow> str_includes (xs @ ys) sub"
  by (auto simp: str_includes_sublist sublist_append)

lemma occurrences_append: "occurrences (xs @ ys) sub = starts xs ys sub + occurrences ys sub"
  by (induction xs) auto

lemma occurrences_zero: "occurrences s sub = 0 \<longleftrightarrow> \<not> str_includes s sub"
  by (induction s) auto

lemma occurrences_short: "length s < length sub \<Longrightarrow> occurrences s sub = 0"
  by (induction s) (auto dest: prefix_length_le)

lemma occurrences_self: "s \<noteq> [] \<Longrightarrow> occurrences s s = 1"
  by (cases s) (simp_all add: occurrences_short)

lemma starts_zeroI:
  "(\<And>d. d \<noteq> [] \<Longrightarrow> suffix d xs \<Longrightarrow> \<not> prefix sub (d @ ys)) \<Longrightarrow> starts xs ys sub = 0"
proof (induction xs)
  case Nil
  then show ?case by simp
next
  case (Cons x xs)
  have "\<not> prefix sub ((x # xs) @ ys)"
    by (rule Cons.prems) simp_all
  moreover have "starts xs ys sub = 0"
    by (rule Cons.IH, rule Cons.prems) (auto simp: suffix_Cons)
  ultimately show ?case by simp
qed

lemma starts_no_head:
  "x \<notin> set xs \<Longrightarrow> starts xs ys (x # sub) = 0"
  by (induction xs) auto

lemma starts_append:
  "starts (xs @ ys) zs sub = starts xs (ys @ zs) sub + starts ys zs sub"
  by (induction xs) auto

lemma prefix_append_sep:
  assumes "prefix m (d @ x # b)" and "x \<notin> set m"
  shows "prefix m d"
proof -
  from assms(1) consider "prefix m d" | us where "m = d @ us" "prefix us (x # b)"
    by (auto simp: prefix_append)
  then show ?thesis
  proof cases
    case 1 then show ?thesis .
  next
    case 2
    with assms(2) have "us = []" by (cases us) auto
    with 2 show ?thesis by simp
  qed
qed

lemma splitAtFirst_None: "splitAtFirst s pat = None \<longleftrightarrow> \<not> str_includes s pat"
  by (induction s) auto

lemma splitAtFirst_Some: "splitAtFirst s pat = Some (b, a) \<Longrightarrow> s = b @ pat @ a"
proof (induction s arbitrary: b)
  case Nil
  then show ?case by (simp split: if_splits)
next
  case (Cons x xs)
  show ?case
  proof (cases "prefix pat (x # xs)")
    case True
    with Cons.prems have "b = []" "a = drop (length pat) (x # xs)" by simp_all
    moreover from True have "x # xs = pat @ drop (length pat) (x # xs)"
      by (metis append_eq_conv_conj prefixE)
    ultimately show ?thesis by simp
  next
    case False
    with Cons.prems obtain b' where "splitAtFirst xs pat = Some (b', a)" "b = x # b'"
      by auto
    with Cons.IH show ?thesis by simp
  qed
qed

lemma getSubstitution_plain:
  "CHR ''$'' \<notin> set t \<Longrightarrow> getSubstitution m b a t = t"
  by (induction m b a t rule: getSubstitution.induct) auto

lemma str_replace_absent: "\<not> str_includes s pat \<Longrightarrow> str_replace s pat r = s"
  using splitAtFirst_None [of s pat] by (simp add: str_replace_def)

lemma str_replace_plain:
  assumes "str_includes s pat" and "CHR ''$'' \<notin> set r"
  obtains b a where "s = b @ pat @ a" and "str_replace s pat r = b @ r @ a"
proof -
  from assms(1) obtain b a where sp: "splitAtFirst s pat = Some (b, a)"
    using splitAtFirst_None [of s pat] by (cases "splitAtFirst s pat") auto
  then have "s = b @ pat @ a" by (rule splitAtFirst_Some)
  moreover from sp assms(2) have "str_replace s pat r = b @ r @ a"
    by (simp add: str_replace_def getSubstitution_plain)
  ultimately show thesis by (rule that)
qed

section \<open>Facts about the file system operations\<close>

lemma fs_log_event [simp]: "fs (log_event e w) = fs w"
  by (simp add: log_event_def)

lemma trace_log_event [simp]: "trace (log_event e w) = trace w @ [e]"
  by (simp add: log_event_def)

lemma existsSync_log_event [simp]: "existsSync p (log_event e w) = existsSync p w"
  by (simp add: existsSync_def)

lemma readFileSync_log_event [simp]: "readFileSync p (log_event e w) = readFileSync p w"
  by (simp add: readFileSync_def)

lemma readFileSync_exists: "readFileSync p w = Some c \<Longrightarrow> existsSync p w"
  by (auto simp: readFileSync_def existsSync_def split: if_splits)

lemma writeFileSync_existing:
  "readFileSync p w = Some c \<Longrightarrow>
   writeFileSync p c' w =
     Inr ((log_event (WriteFile p c') w)\<lparr>fs := (fs w)\<lparr>files := (files (fs w))(p \<mapsto> c')\<rparr>\<rparr>)"
  by (auto simp: readFileSync_def writeFileSync_def Let_def split: if_splits)

lemma writeFileSync_Inr:
  assumes "writeFileSync p c w = Inr w'"
  shows "w' = (log_event (WriteFile p c) w)\<lparr>fs := (fs w)\<lparr>files := (files (fs w))(p \<mapsto> c)\<rparr>\<rparr>"
    and "p \<notin> dirs (fs w)"
  using assms by (auto simp: writeFileSync_def Let_def split: if_splits)

lemma mkdirSync_recursive_Inr:
  assumes "mkdirSync_recursive p w = Inr w'"
  shows "w' = (log_event (MkDir p) w)\<lparr>fs := (fs w)\<lparr>dirs := dirs (fs w) \<union> set (prefixes p)\<rparr>\<rparr>"
    and "\<not> list_ex (\<lambda>q. q \<in> dom (files (fs w))) (prefixes p)"
  using assms by (auto simp: mkdirSync_recursive_def Let_def split: if_splits)

lemma same_content_write:
  assumes "readFileSync p w = Some c"
  shows "(fs w)\<lparr>files := (files (fs w))(p \<mapsto> c)\<rparr> = fs w"
proof -
  from assms have "files (fs w) p = Some c"
    by (simp add: readFileSync_def split: if_splits)
  then have "(files (fs w))(p \<mapsto> c) = files (fs w)"
    by (rule map_upd_triv)
  then show ?thesis by simp
qed

lemma readFileSync_after_write:
  "readFileSync p w = Some c \<Longrightarrow>
   readFileSync p (showInformationMessage m
      ((log_event e w)\<lparr>fs := (fs w)\<lparr>files := (files (fs w))(p \<mapsto> c')\<rparr>\<rparr>)) = Some c'"
  by (auto simp: readFileSync_def showInformationMessage_def log_event_def split: if_splits)

lemma readFileSync_updated:
  assumes "readFileSync q w1 = Some c" and "fs w' = (fs w1)\<lparr>files := (files (fs w1))(q \<mapsto> c')\<rparr>"
  shows "readFileSync q w' = Some c'"
  using assms by (simp add: readFileSync_def split: if_splits)

lemma and_then_Inr: "and_then r f = Inr w' \<longleftrightarrow> (\<exists>w1. r = Inr w1 \<and> f w1 = Inr w')"
  by (cases r) (simp_all add: and_then_def)

lemma path_join_single: "n \<noteq> [] \<Longrightarrow> path_join b [n] = b @ [n]"
  by (simp add: path_join_def)

section \<open>Evaluation on the sample worlds\<close>

lemmas model_defs =
  setupDjangoWorkspace_def execSync_def existsSync_def path_join_def
  showInformationMessage_def showErrorMessage_def log_event_def
  setupIndexHtml_def writeTemplateFiles_def registerAppUrls_def try_catch_def and_then_def
  mkdirSync_recursive_def writeFileSync_def readFileSync_def projectUrlsFilePath_def Let_def
  includeMarker_def str_replace_def urlsAnchor_def includeReplacement_def
  setupWorkspaceCmd_def setupStaticConfiguration_def settingsFilePath_def
  appDir_def templatesDir_def indexHtmlPath_def viewsFilePath_def urlsFilePath_def

lemmas sample_defs =
  sampleProcess_def emptyWorkspace_def occupiedWorkspace_def generatedUrls_def
  generatedSettings_def

lemmas eval_defs = model_defs sample_defs projectWorld_def finalWorld_def succeeded_def
  setupDjangoWorkspace_part_000_def setUpMessage_def requirements_def

lemma settingsWorld_read:
  "readFileSync (settingsFilePath [''ws''] ''blog'') (settingsWorld content) = Some content"
  by (simp add: readFileSync_def settingsFilePath_def path_join_def settingsWorld_def)

section \<open>The static-configuration patcher: claims C1, C2 and C3\<close>

lemma staticBlock_includes_marker: "str_includes staticBlock staticMarker"
  by (simp add: staticBlock_def staticMarker_def)

lemma staticBlock_marker_once: "occurrences staticBlock staticMarker = 1"
  by (simp add: staticBlock_def staticMarker_def)

lemma staticBlock_tail: "\<not> str_includes (tl staticBlock) ''\<newline>\<newline>''"
  by (simp add: staticBlock_def)

lemma staticBlock_no_border:
  assumes "staticBlock = d @ us" "d \<noteq> []" "us \<noteq> []" "prefix us staticBlock"
  shows False
proof -
  from assms(3) consider u where "us = [u]" | u v r where "us = u # v # r"
    by (cases us; cases "tl us") auto
  then show False
  proof cases
    case 1
    with assms(4) have "u = CHR 0x0A" by (simp add: staticBlock_def)
    moreover from assms(1) 1 have "last staticBlock = u" by (metis last_snoc)
    ultimately show False by (simp add: staticBlock_def)
  next
    case 2
    with assms(4) have "prefix ''\<newline>\<newline>'' us"
      by (simp add: staticBlock_def)
    then have "sublist ''\<newline>\<newline>'' us" by (rule prefix_imp_sublist)
    moreover from assms(1,2) have "tl staticBlock = tl d @ us"
      by (metis tl_append2)
    then have "suffix us (tl staticBlock)"
      by (simp add: suffix_def)
    ultimately have "sublist ''\<newline>\<newline>'' (tl staticBlock)"
      by (meson sublist_order.order.trans suffix_imp_sublist)
    with staticBlock_tail show False by (simp add: str_includes_sublist)
  qed
qed

lemma append_block_marker_once:
  assumes "\<not> str_includes c staticMarker"
  shows "occurrences (c @ staticBlock) staticMarker = 1"
proof -
  have "starts c staticBlock staticMarker = 0"
  proof (rule starts_zeroI)
    fix d assume d: "d \<noteq> []" "suffix d c"
    show "\<not> prefix staticMarker (d @ staticBlock)"
    proof
      assume "prefix staticMarker (d @ staticBlock)"
      then have "prefix staticMarker (d @ CHR 0x0A # tl staticBlock)"
        by (simp add: staticBlock_def)
      then have "prefix staticMarker d"
        by (rule prefix_append_sep) (simp add: staticMarker_def)
      with d assms show False
        using prefix_includes suffix_includes by blast
    qed
  qed
  then show ?thesis
    by (simp add: occurrences_append staticBlock_marker_once)
qed

lemma append_block_once:
  assumes "\<not> str_includes c staticMarker"
  shows "occurrences (c @ staticBlock) staticBlock = 1"
proof -
  have ne: "staticBlock \<noteq> []" by (simp add: staticBlock_def)
  have "starts c staticBlock staticBlock = 0"
  proof (rule starts_zeroI)
    fix d assume d: "d \<noteq> []" "suffix d c"
    have nod: "\<not> str_includes d staticBlock"
      using assms d(2) includes_trans staticBlock_includes_marker suffix_includes by blast
    show "\<not> prefix staticBlock (d @ staticBlock)"
    proof
      assume "prefix staticBlock (d @ staticBlock)"
      then consider "prefix staticBlock d"
        | us where "staticBlock = d @ us" "prefix us staticBlock"
        by (auto simp: prefix_append)
      then show False
      proof cases
        case 1
        with nod show False by (simp add: prefix_includes)
      next
        case 2
        show False
        proof (cases "us = []")
          case True
          with 2 nod show False by (simp add: prefix_includes)
        next
          case False
          with 2 d(1) show False using staticBlock_no_border by blast
        qed
      qed
    qed
  qed
  then show ?thesis
    by (simp add: occurrences_append occurrences_self ne)
qed

lemma append_block_includes_marker: "str_includes (c @ staticBlock) staticMarker"
  using staticBlock_includes_marker by (simp add: str_includes_sublist sublist_append)

lemma setupStatic_missing:
  "\<not> existsSync (settingsFilePath ws p) w \<Longrightarrow>
   setupStaticConfiguration ws p w =
     showErrorMessage (''settings.py not found in project '' @ p @ ''.'') w"
  by (simp add: setupStaticConfiguration_def try_catch_def)

lemma setupStatic_unreadable:
  "existsSync (settingsFilePath ws p) w \<Longrightarrow> readFileSync (settingsFilePath ws p) w = None \<Longrightarrow>
   setupStaticConfiguration ws p w =
     showErrorMessage ''Failed to add static files configuration to settings.py.'' w"
  by (simp add: setupStaticConfiguration_def try_catch_def)

lemma setupStatic_present:
  "readFileSync (settingsFilePath ws p) w = Some c \<Longrightarrow> str_includes c staticMarker \<Longrightarrow>
   setupStaticConfiguration ws p w =
     showInformationMessage ''Static files configuration already exists in settings.py.'' w"
  by (simp add: setupStaticConfiguration_def try_catch_def readFileSync_exists)

lemma setupStatic_absent:
  "readFileSync (settingsFilePath ws p) w = Some c \<Longrightarrow> \<not> str_includes c staticMarker \<Longrightarrow>
   setupStaticConfiguration ws p w =
     showInformationMessage ''Static files configuration added to settings.py.''
       ((log_event (WriteFile (settingsFilePath ws p) (c @ staticBlock)) w)
          \<lparr>fs := (fs w)\<lparr>files := (files (fs w))(settingsFilePath ws p \<mapsto> c @ staticBlock)\<rparr>\<rparr>)"
  by (simp add: setupStaticConfiguration_def try_catch_def and_then_def readFileSync_exists
      writeFileSync_existing)

text \<open>
  Claim C1.  Running the patcher twice in a row leaves the file system exactly as
  running it once does, from every world: whether the settings file is missing,
  unreadable, already patched or not.  When the settings file can be read, its content
  after two runs is the original content with the block appended once (or the original
  content itself when it already held the marker): the second run never appends the
  block again.
\<close>

theorem setupStaticConfiguration_idempotent:
  "fs (setupStaticConfiguration ws p (setupStaticConfiguration ws p w))
     = fs (setupStaticConfiguration ws p w)
   \<and> (readFileSync (settingsFilePath ws p) w = Some c \<longrightarrow>
        readFileSync (settingsFilePath ws p)
          (setupStaticConfiguration ws p (setupStaticConfiguration ws p w))
        = Some (if str_includes c staticMarker then c else c @ staticBlock))"
proof -
  let ?sp = "settingsFilePath ws p"
  let ?S = "setupStaticConfiguration ws p"
  consider (missing) "\<not> existsSync ?sp w"
    | (unreadable) "existsSync ?sp w" "readFileSync ?sp w = None"
    | (present) c' where "readFileSync ?sp w = Some c'" "str_includes c' staticMarker"
    | (absent) c' where "readFileSync ?sp w = Some c'" "\<not> str_includes c' staticMarker"
    by (cases "readFileSync ?sp w") auto
  then show ?thesis
  proof cases
    case missing
    then have "\<not> readFileSync ?sp w = Some c" using readFileSync_exists by blast
    with missing show ?thesis
      by (simp add: setupStatic_missing showErrorMessage_def)
  next
    case unreadable
    then show ?thesis
      by (simp add: setupStatic_unreadable showErrorMessage_def)
  next
    case present
    then show ?thesis
      by (auto simp: setupStatic_present showInformationMessage_def)
  next
    case absent
    let ?w1 = "?S w"
    from absent have w1: "?w1 = showInformationMessage ''Static files configuration added to settings.py.''
       ((log_event (WriteFile ?sp (c' @ staticBlock)) w)
          \<lparr>fs := (fs w)\<lparr>files := (files (fs w))(?sp \<mapsto> c' @ staticBlock)\<rparr>\<rparr>)"
      by (rule setupStatic_absent)
    from absent(1) have r1: "readFileSync ?sp ?w1 = Some (c' @ staticBlock)"
      unfolding w1 by (rule readFileSync_after_write)
    have "?S ?w1 = showInformationMessage ''Static files configuration already exists in settings.py.'' ?w1"
      using r1 append_block_includes_marker by (rule setupStatic_present)
    with r1 absent show ?thesis
      by (auto simp: showInformationMessage_def)
  qed
qed

theorem setupStaticConfiguration_idempotent_witness:
  "readFileSync (settingsFilePath [''ws''] ''blog'') (settingsWorld ''DEBUG = True'') = Some ''DEBUG = True''
   \<and> fs (setupStaticConfiguration [''ws''] ''blog'' (setupStaticConfiguration [''ws''] ''blog'' (settingsWorld ''DEBUG = True'')))
     = fs (setupStaticConfiguration [''ws''] ''blog'' (settingsWorld ''DEBUG = True''))
   \<and> readFileSync (settingsFilePath [''ws''] ''blog'')
          (setupStaticConfiguration [''ws''] ''blog'' (setupStaticConfiguration [''ws''] ''blog'' (settingsWorld ''DEBUG = True'')))
        = Some (''DEBUG = True'' @ staticBlock)"
  using setupStaticConfiguration_idempotent [of "[''ws'']" "''blog''" "settingsWorld ''DEBUG = True''" "''DEBUG = True''"]
  by (simp add: settingsWorld_read staticMarker_def)

text \<open>
  Claim C2.  When the settings file holds a content without the marker
  \<open>STATICFILES_DIRS\<close>, one run of the patcher leaves the content followed by the fixed
  block; that content holds the marker, the marker occurs in it exactly once and the
  block occurs in it exactly once.
\<close>

theorem setupStaticConfiguration_adds_once:
  assumes "readFileSync (settingsFilePath ws p) w = Some c"
    and "\<not> str_includes c staticMarker"
  shows "readFileSync (settingsFilePath ws p) (setupStaticConfiguration ws p w)
           = Some (c @ staticBlock)
     \<and> str_includes (c @ staticBlock) staticMarker
     \<and> occurrences (c @ staticBlock) staticMarker = 1
     \<and> occurrences (c @ staticBlock) staticBlock = 1"
  using assms
  by (simp add: setupStatic_absent readFileSync_after_write append_block_includes_marker
      append_block_marker_once append_block_once)

theorem setupStaticConfiguration_adds_once_witness:
  "readFileSync (settingsFilePath [''ws''] ''blog'') (settingsWorld ''DEBUG = True'') = Some ''DEBUG = True''
   \<and> \<not> str_includes ''DEBUG = True'' staticMarker
   \<and> readFileSync (settingsFilePath [''ws''] ''blog'')
          (setupStaticConfiguration [''ws''] ''blog'' (settingsWorld ''DEBUG = True''))
        = Some (''DEBUG = True'' @ staticBlock)
   \<and> occurrences (''DEBUG = True'' @ staticBlock) staticMarker = 1
   \<and> occurrences (''DEBUG = True'' @ staticBlock) staticBlock = 1"
  using setupStaticConfiguration_adds_once [of "[''ws'']" "''blog''" "settingsWorld ''DEBUG = True''" "''DEBUG = True''"]
  by (simp add: settingsWorld_read staticMarker_def)

text \<open>
  Claim C3.  When the settings file holds a content with the marker
  \<open>STATICFILES_DIRS\<close>, the patcher only reports that the configuration already exists:
  the file system is unchanged and the trace gains that one notification, so no write
  is performed.
\<close>

theorem setupStaticConfiguration_noop:
  assumes "readFileSync (settingsFilePath ws p) w = Some c"
    and "str_includes c staticMarker"
  shows "setupStaticConfiguration ws p w =
      w\<lparr>trace := trace w @ [ShowInfo ''Static files configuration already exists in settings.py.'']\<rparr>"
  using assms by (simp add: setupStatic_present showInformationMessage_def log_event_def)

theorem setupStaticConfiguration_noop_witness:
  "readFileSync (settingsFilePath [''ws''] ''blog'') (settingsWorld ''STATICFILES_DIRS = []'') = Some ''STATICFILES_DIRS = []''
   \<and> str_includes ''STATICFILES_DIRS = []'' staticMarker
   \<and> setupStaticConfiguration [''ws''] ''blog'' (settingsWorld ''STATICFILES_DIRS = []'') =
      (settingsWorld ''STATICFILES_DIRS = []'')\<lparr>trace := [ShowInfo ''Static files configuration already exists in settings.py.'']\<rparr>"
  using setupStaticConfiguration_noop [of "[''ws'']" "''blog''" "settingsWorld ''STATICFILES_DIRS = []''" "''STATICFILES_DIRS = []''"]
  by (simp add: settingsWorld_read staticMarker_def) (simp add: settingsWorld_def)

section \<open>The workspace pipeline: claims C4, C5 and C8\<close>

text \<open>
  Claim C4 as stated fails: with a directory \<open>blog\<close> already in the workspace, the
  pipeline has run one external process, the interpreter version probe, when it aborts.
\<close>

theorem setupDjangoWorkspace_probe_before_abort:
  "existsSync (path_join [''ws''] [''blog'']) occupiedWorkspace
   \<and> filter isExec (trace (setupDjangoWorkspace sampleProcess [''ws''] ''blog'' ''posts''
          None None occupiedWorkspace)) = [Exec ''python --version'' None]"
  by (simp add: model_defs sample_defs)

text \<open>
  Claim C4, amended.  When the project name collides with an existing entry of the
  workspace folder, the pipeline runs the interpreter version probe and nothing else:
  it then aborts with an error notification (that the folder already exists, or that
  the interpreter is missing when the probe fails), before invoking the project or the
  app generator and without writing a file or creating a directory.  The file system is
  what the probe left.
\<close>

theorem setupDjangoWorkspace_existing_project:
  assumes "run ''python --version'' None (fs w) = (ok, fs')"
    and "existsSync (path_join ws [p]) (w\<lparr>fs := fs'\<rparr>)"
  shows "setupDjangoWorkspace run ws p a st ix w =
     w\<lparr>fs := fs',
       trace := trace w @
         [Exec ''python --version'' None,
          ShowError (if ok then ''The project folder '' @ p @ '' already exists.''
            else ''Python is not installed or not added to PATH. Please fix this before proceeding.'')]\<rparr>"
  using assms
  by (simp add: setupDjangoWorkspace_def execSync_def existsSync_def showErrorMessage_def
      log_event_def)

theorem setupDjangoWorkspace_existing_project_witness:
  "sampleProcess ''python --version'' None (fs occupiedWorkspace) = (True, fs occupiedWorkspace)
   \<and> existsSync (path_join [''ws''] [''blog'']) occupiedWorkspace
   \<and> setupDjangoWorkspace sampleProcess [''ws''] ''blog'' ''posts'' (Some ''Yes'') (Some ''Yes'')
        occupiedWorkspace =
      occupiedWorkspace\<lparr>trace :=
         [Exec ''python --version'' None,
          ShowError ''The project folder blog already exists.'']\<rparr>"
  using setupDjangoWorkspace_existing_project [where run = sampleProcess and w = occupiedWorkspace and ok = True
      and fs' = "fs occupiedWorkspace" and ws = "[''ws'']" and p = "''blog''" and a = "''posts''"
      and st = "Some ''Yes''" and ix = "Some ''Yes''"]
  by (simp add: sample_defs existsSync_def path_join_def)




text \<open>
  Claim C8 fails on the code.  With the empty app name the app generator is not run,
  but when the user accepts the last quick pick the template files are still written,
  into the project directory itself, and the project's routing file is rewritten with
  an include directive for the module \<open>.urls\<close>.
\<close>

theorem setupDjangoWorkspace_empty_app_writes:
  "filter isExec (trace (setupDjangoWorkspace sampleProcess [''ws''] ''blog'' [] (Some ''No'')
      (Some ''Yes'') emptyWorkspace))
     = [Exec ''python --version'' None, Exec ''django-admin startproject blog'' (Some [''ws''])]
   \<and> filter isWrite (trace (setupDjangoWorkspace sampleProcess [''ws''] ''blog'' [] (Some ''No'')
      (Some ''Yes'') emptyWorkspace))
     = [WriteFile [''ws'', ''blog'', ''templates'', ''index.html''] (indexHtmlContent []),
        WriteFile [''ws'', ''blog'', ''views.py''] (viewsContent []),
        WriteFile [''ws'', ''blog'', ''urls.py''] urlsContent,
        WriteFile [''ws'', ''blog'', ''blog'', ''urls.py'']
          (''from django.urls import path\<newline>\<newline>'' @ includeReplacement [] @ ''\<newline>]\<newline>'')]"
  by (simp add: model_defs sample_defs)

section \<open>The routing splice: claims C6 and C10\<close>

lemma registerAppUrls_absent:
  assumes "readFileSync (projectUrlsFilePath ws p) w = Some c"
    and "\<not> str_includes c (includeMarker a)"
  shows "registerAppUrls ws p a w =
     Inr ((log_event (WriteFile (projectUrlsFilePath ws p)
             (str_replace c urlsAnchor (includeReplacement a))) w)
          \<lparr>fs := (fs w)\<lparr>files := (files (fs w))
             (projectUrlsFilePath ws p \<mapsto> str_replace c urlsAnchor (includeReplacement a))\<rparr>\<rparr>)"
  using assms by (simp add: registerAppUrls_def writeFileSync_existing)

lemma registerAppUrls_present:
  assumes "readFileSync (projectUrlsFilePath ws p) w = Some c"
    and "str_includes c (includeMarker a)"
  shows "registerAppUrls ws p a w = Inr w"
  using assms by (simp add: registerAppUrls_def)

lemma setupIndexHtml_after_templates:
  "writeTemplateFiles ws p a w = Inr w1 \<Longrightarrow>
   setupIndexHtml ws p a w =
     (case registerAppUrls ws p a w1 of
        Inl w2 \<Rightarrow> showErrorMessage ''Failed to set up index.html, views.py, and urls.py.'' w2
      | Inr w2 \<Rightarrow> showInformationMessage ''index.html, views.py, and urls.py have been set up.'' w2)"
  by (simp add: setupIndexHtml_def and_then_def try_catch_def split: sum.splits)

text \<open>
  Claim C6.  When the template files have been written and the project's routing file
  then holds a content with neither the include directive nor the anchor line, the
  splice changes nothing and reports no error: the result is the world after the
  template files, with a write of the same content and the success notification added
  to the trace, and the routing file still holds that content.
\<close>

theorem setupIndexHtml_anchor_missing:
  assumes "writeTemplateFiles ws p a w = Inr w1"
    and "readFileSync (projectUrlsFilePath ws p) w1 = Some c"
    and "\<not> str_includes c (includeMarker a)"
    and "\<not> str_includes c urlsAnchor"
  shows "setupIndexHtml ws p a w =
      w1\<lparr>trace := trace w1 @
         [WriteFile (projectUrlsFilePath ws p) c,
          ShowInfo ''index.html, views.py, and urls.py have been set up.'']\<rparr>
    \<and> readFileSync (projectUrlsFilePath ws p) (setupIndexHtml ws p a w) = Some c"
proof -
  have "str_replace c urlsAnchor (includeReplacement a) = c"
    using assms(4) by (rule str_replace_absent)
  with assms(1-3) have "setupIndexHtml ws p a w =
      w1\<lparr>trace := trace w1 @
         [WriteFile (projectUrlsFilePath ws p) c,
          ShowInfo ''index.html, views.py, and urls.py have been set up.'']\<rparr>"
    by (simp add: setupIndexHtml_after_templates registerAppUrls_absent same_content_write
        showInformationMessage_def log_event_def)
  moreover have "readFileSync (projectUrlsFilePath ws p) (w1\<lparr>trace := trace w1 @
         [WriteFile (projectUrlsFilePath ws p) c,
          ShowInfo ''index.html, views.py, and urls.py have been set up.'']\<rparr>) = Some c"
    using assms(2) by (simp add: readFileSync_def split: if_splits)
  ultimately show ?thesis by simp
qed

theorem setupIndexHtml_anchor_missing_witness:
  "writeTemplateFiles [''ws''] ''blog'' ''posts'' (projectWorld ''urlpatterns=[]'')
     = Inr (finalWorld (writeTemplateFiles [''ws''] ''blog'' ''posts'' (projectWorld ''urlpatterns=[]'')))
   \<and> readFileSync (projectUrlsFilePath [''ws''] ''blog'')
        (finalWorld (writeTemplateFiles [''ws''] ''blog'' ''posts'' (projectWorld ''urlpatterns=[]'')))
       = Some ''urlpatterns=[]''
   \<and> \<not> str_includes ''urlpatterns=[]'' (includeMarker ''posts'')
   \<and> \<not> str_includes ''urlpatterns=[]'' urlsAnchor
   \<and> readFileSync (projectUrlsFilePath [''ws''] ''blog'')
        (setupIndexHtml [''ws''] ''blog'' ''posts'' (projectWorld ''urlpatterns=[]''))
       = Some ''urlpatterns=[]''"
proof -
  have 1: "writeTemplateFiles [''ws''] ''blog'' ''posts'' (projectWorld ''urlpatterns=[]'')
     = Inr (finalWorld (writeTemplateFiles [''ws''] ''blog'' ''posts'' (projectWorld ''urlpatterns=[]'')))"
    by (simp add: eval_defs)
  have 2: "readFileSync (projectUrlsFilePath [''ws''] ''blog'')
        (finalWorld (writeTemplateFiles [''ws''] ''blog'' ''posts'' (projectWorld ''urlpatterns=[]'')))
       = Some ''urlpatterns=[]''"
    by (simp add: eval_defs)
  have 3: "\<not> str_includes ''urlpatterns=[]'' (includeMarker ''posts'')"
    by (simp add: includeMarker_def)
  have 4: "\<not> str_includes ''urlpatterns=[]'' urlsAnchor"
    by (simp add: urlsAnchor_def)
  from setupIndexHtml_anchor_missing [OF 1 2 3 4]
  have 5: "readFileSync (projectUrlsFilePath [''ws''] ''blog'')
        (setupIndexHtml [''ws''] ''blog'' ''posts'' (projectWorld ''urlpatterns=[]''))
       = Some ''urlpatterns=[]''"
    by (rule conjunct2)
  from 1 2 3 4 5 show ?thesis by blast
qed

text \<open>
  Claim C10.  When the template files have been written and the project's routing file
  then holds a content without the include directive, \<open>setupIndexHtml\<close> writes the
  routing file, whatever the replacement did: the result is the world after the
  template files with the routing file holding the replaced content, the write and the
  success notification added to the trace, and reading the routing file gives the
  replaced content.  When the anchor line is absent too, the content written is the
  content read.
\<close>

theorem setupIndexHtml_writes_when_marker_absent:
  assumes "writeTemplateFiles ws p a w = Inr w1"
    and "readFileSync (projectUrlsFilePath ws p) w1 = Some c"
    and "\<not> str_includes c (includeMarker a)"
  shows "setupIndexHtml ws p a w =
      w1\<lparr>fs := (fs w1)\<lparr>files := (files (fs w1))
              (projectUrlsFilePath ws p \<mapsto> str_replace c urlsAnchor (includeReplacement a))\<rparr>,
         trace := trace w1 @
           [WriteFile (projectUrlsFilePath ws p) (str_replace c urlsAnchor (includeReplacement a)),
            ShowInfo ''index.html, views.py, and urls.py have been set up.'']\<rparr>
    \<and> readFileSync (projectUrlsFilePath ws p) (setupIndexHtml ws p a w)
        = Some (str_replace c urlsAnchor (includeReplacement a))
    \<and> (\<not> str_includes c urlsAnchor \<longrightarrow> str_replace c urlsAnchor (includeReplacement a) = c)"
proof -
  let ?q = "projectUrlsFilePath ws p"
  let ?c' = "str_replace c urlsAnchor (includeReplacement a)"
  let ?w' = "w1\<lparr>fs := (fs w1)\<lparr>files := (files (fs w1))(?q \<mapsto> ?c')\<rparr>,
         trace := trace w1 @
           [WriteFile ?q ?c', ShowInfo ''index.html, views.py, and urls.py have been set up.'']\<rparr>"
  from assms have eq: "setupIndexHtml ws p a w = ?w'"
    by (simp add: setupIndexHtml_after_templates registerAppUrls_absent
        showInformationMessage_def log_event_def)
  have "fs ?w' = (fs w1)\<lparr>files := (files (fs w1))(?q \<mapsto> ?c')\<rparr>"
    by simp
  with assms(2) have "readFileSync ?q ?w' = Some ?c'"
    by (rule readFileSync_updated)
  moreover have "\<not> str_includes c urlsAnchor \<longrightarrow> ?c' = c"
    by (simp add: str_replace_absent)
  ultimately show ?thesis
    unfolding eq by blast
qed

theorem setupIndexHtml_writes_when_marker_absent_witness:
  "writeTemplateFiles [''ws''] ''blog'' ''posts'' (projectWorld generatedUrls)
     = Inr (finalWorld (writeTemplateFiles [''ws''] ''blog'' ''posts'' (projectWorld generatedUrls)))
   \<and> readFileSync (projectUrlsFilePath [''ws''] ''blog'')
        (finalWorld (writeTemplateFiles [''ws''] ''blog'' ''posts'' (projectWorld generatedUrls)))
       = Some generatedUrls
   \<and> \<not> str_includes generatedUrls (includeMarker ''posts'')
   \<and> readFileSync (projectUrlsFilePath [''ws''] ''blog'')
        (setupIndexHtml [''ws''] ''blog'' ''posts'' (projectWorld generatedUrls))
       = Some (''from django.urls import path\<newline>\<newline>from django.urls import include\<newline>\<newline>urlpatterns = [\<newline>    path(''
           @ apos @ ''posts/'' @ apos @ '', include('' @ apos @ ''posts.urls'' @ apos
           @ '')),\<newline>]\<newline>'')
   \<and> filter isWrite (trace (setupIndexHtml [''ws''] ''blog'' ''posts'' (projectWorld generatedUrls)))
       = [WriteFile [''ws'', ''blog'', ''posts'', ''templates'', ''posts'', ''index.html'']
            (indexHtmlContent ''posts''),
          WriteFile [''ws'', ''blog'', ''posts'', ''views.py''] (viewsContent ''posts''),
          WriteFile [''ws'', ''blog'', ''posts'', ''urls.py''] urlsContent,
          WriteFile [''ws'', ''blog'', ''blog'', ''urls.py'']
            (''from django.urls import path\<newline>\<newline>from django.urls import include\<newline>\<newline>urlpatterns = [\<newline>    path(''
             @ apos @ ''posts/'' @ apos @ '', include('' @ apos @ ''posts.urls'' @ apos
             @ '')),\<newline>]\<newline>'')]"
proof -
  let ?w0 = "projectWorld generatedUrls"
  let ?w1 = "finalWorld (writeTemplateFiles [''ws''] ''blog'' ''posts'' ?w0)"
  have 1: "writeTemplateFiles [''ws''] ''blog'' ''posts'' ?w0 = Inr ?w1"
    by (simp add: eval_defs)
  have 2: "readFileSync (projectUrlsFilePath [''ws''] ''blog'') ?w1 = Some generatedUrls"
    by (simp add: eval_defs)
  have 3: "\<not> str_includes generatedUrls (includeMarker ''posts'')"
    by (simp add: generatedUrls_def includeMarker_def)
  have 4: "str_replace generatedUrls urlsAnchor (includeReplacement ''posts'')
      = ''from django.urls import path\<newline>\<newline>from django.urls import include\<newline>\<newline>urlpatterns = [\<newline>    path(''
           @ apos @ ''posts/'' @ apos @ '', include('' @ apos @ ''posts.urls'' @ apos
           @ '')),\<newline>]\<newline>''"
    by (simp add: generatedUrls_def urlsAnchor_def includeReplacement_def str_replace_def)
  have 5: "trace ?w1
     = [MkDir [''ws'', ''blog'', ''posts'', ''templates'', ''posts''],
        WriteFile [''ws'', ''blog'', ''posts'', ''templates'', ''posts'', ''index.html'']
            (indexHtmlContent ''posts''),
        WriteFile [''ws'', ''blog'', ''posts'', ''views.py''] (viewsContent ''posts''),
        WriteFile [''ws'', ''blog'', ''posts'', ''urls.py''] urlsContent]"
    by (simp add: eval_defs)
  note T = setupIndexHtml_writes_when_marker_absent [OF 1 2 3, unfolded 4]
  from T have 6: "readFileSync (projectUrlsFilePath [''ws''] ''blog'')
        (setupIndexHtml [''ws''] ''blog'' ''posts'' ?w0)
       = Some (''from django.urls import path\<newline>\<newline>from django.urls import include\<newline>\<newline>urlpatterns = [\<newline>    path(''
           @ apos @ ''posts/'' @ apos @ '', include('' @ apos @ ''posts.urls'' @ apos
           @ '')),\<newline>]\<newline>'')"
    by blast
  from T have "trace (setupIndexHtml [''ws''] ''blog'' ''posts'' ?w0) =
      trace ?w1 @
        [WriteFile (projectUrlsFilePath [''ws''] ''blog'')
           (''from django.urls import path\<newline>\<newline>from django.urls import include\<newline>\<newline>urlpatterns = [\<newline>    path(''
             @ apos @ ''posts/'' @ apos @ '', include('' @ apos @ ''posts.urls'' @ apos
             @ '')),\<newline>]\<newline>''),
         ShowInfo ''index.html, views.py, and urls.py have been set up.'']"
    by simp
  then have 7: "filter isWrite (trace (setupIndexHtml [''ws''] ''blog'' ''posts'' ?w0))
       = [WriteFile [''ws'', ''blog'', ''posts'', ''templates'', ''posts'', ''index.html'']
            (indexHtmlContent ''posts''),
          WriteFile [''ws'', ''blog'', ''posts'', ''views.py''] (viewsContent ''posts''),
          WriteFile [''ws'', ''blog'', ''posts'', ''urls.py''] urlsContent,
          WriteFile [''ws'', ''blog'', ''blog'', ''urls.py'']
            (''from django.urls import path\<newline>\<newline>from django.urls import include\<newline>\<newline>urlpatterns = [\<newline>    path(''
             @ apos @ ''posts/'' @ apos @ '', include('' @ apos @ ''posts.urls'' @ apos
             @ '')),\<newline>]\<newline>'')]"
    by (simp add: 5 projectUrlsFilePath_def path_join_def)
  from 1 2 3 6 7 show ?thesis by blast
qed

section \<open>The routing splice run twice: claim C7\<close>

lemma isWordChar_simps [simp]:
  "\<not> isWordChar (CHR ''$'')" "\<not> isWordChar (CHR ''('')" "\<not> isWordChar (CHR '' '')"
  "\<not> isWordChar (CHR ''.'')" "\<not> isWordChar (CHR ''/'')" "\<not> isWordChar (CHR 0x27)"
  "\<not> isWordChar (CHR '')'')" "\<not> isWordChar (CHR 0x0A)"
  by (simp_all add: isWordChar_def)

lemma validateAppName_None: "validateAppName a = None \<longleftrightarrow> list_all isWordChar a"
  by (cases a) (auto simp: validateAppName_def)

lemma word_not_in:
  "list_all isWordChar a \<Longrightarrow> \<not> isWordChar x \<Longrightarrow> x \<notin> set a"
  by (auto simp: list_all_iff)

lemma includeReplacement_split:
  "includeReplacement a =
     ''from django.urls import include\<newline>\<newline>urlpatterns = [\<newline>    path('' @ apos
       @ a @ (''/'' @ apos @ '', '') @ includeMarker a @ ''),''"
  by (simp add: includeReplacement_def includeMarker_def)

lemma includeReplacement_plain:
  "list_all isWordChar a \<Longrightarrow> CHR ''$'' \<notin> set (includeReplacement a)"
  using word_not_in [of a "CHR ''$''"] by (simp add: includeReplacement_def)

lemma includeMarker_Cons:
  "includeMarker a = CHR ''i'' # ''nclude('' @ apos @ a @ ''.urls'' @ apos @ '')''"
  by (simp add: includeMarker_def)

lemma includeMarker_head_prefix: "prefix (''include('' @ apos) (includeMarker a)"
  by (simp add: includeMarker_def)

lemma last_includeMarker: "last (includeMarker a) = CHR '')''"
  by (simp add: includeMarker_def)

lemma space_not_in_includeMarker:
  "list_all isWordChar a \<Longrightarrow> CHR '' '' \<notin> set (includeMarker a)"
  using word_not_in [of a "CHR '' ''"] by (simp add: includeMarker_def)

text \<open>No occurrence of the marker starts inside a word that is followed by a character
  the head of the marker does not hold.\<close>
lemma starts_in_word:
  assumes "list_all isWordChar a" and "y \<notin> set (''include('' @ apos)"
  shows "starts a (y # rest) (includeMarker b) = 0"
proof (rule starts_zeroI)
  fix d assume d: "d \<noteq> []" "suffix d a"
  show "\<not> prefix (includeMarker b) (d @ y # rest)"
  proof
    assume "prefix (includeMarker b) (d @ y # rest)"
    with includeMarker_head_prefix have "prefix (''include('' @ apos) (d @ y # rest)"
      by (rule prefix_order.trans)
    then have "prefix (''include('' @ apos) d"
      using assms(2) by (rule prefix_append_sep)
    then have "set (''include('' @ apos) \<subseteq> set d"
      by (rule set_mono_prefix)
    moreover from d(2) have "set d \<subseteq> set a"
      by (rule set_mono_suffix)
    ultimately have "CHR ''('' \<in> set a" by auto
    with assms(1) show False using word_not_in by fastforce
  qed
qed

lemma starts_marker_self:
  assumes "list_all isWordChar a"
  shows "starts (includeMarker a) ('')'' @ rest) (includeMarker a) = 1"
proof -
  have "starts a (''.urls'' @ apos @ '')'' @ '')'' @ rest) (includeMarker a) = 0"
    using starts_in_word [OF assms, of "CHR ''.''"] by simp
  moreover have "starts (''nclude('' @ apos) ys (includeMarker a) = 0" for ys
    by (simp add: includeMarker_Cons)
  moreover have "starts (''.urls'' @ apos @ '')'') ys (includeMarker a) = 0" for ys
    by (simp add: includeMarker_Cons)
  moreover have "starts (includeMarker a) ('')'' @ rest) (includeMarker a)
     = 1 + (starts (''nclude('' @ apos) (a @ ''.urls'' @ apos @ '')'' @ '')'' @ rest) (includeMarker a)
          + (starts a (''.urls'' @ apos @ '')'' @ '')'' @ rest) (includeMarker a)
          + starts (''.urls'' @ apos @ '')'') ('')'' @ rest) (includeMarker a)))"
  proof -
    have "includeMarker a = CHR ''i'' # ((''nclude('' @ apos) @ a @ (''.urls'' @ apos @ '')''))"
      by (simp add: includeMarker_def)
    then have "starts (includeMarker a) ('')'' @ rest) (includeMarker a)
      = starts (CHR ''i'' # ((''nclude('' @ apos) @ a @ (''.urls'' @ apos @ '')''))) ('')'' @ rest)
          (includeMarker a)"
      by simp
    also have "\<dots> = (if prefix (includeMarker a) (includeMarker a @ '')'' @ rest) then 1 else 0)
       + starts ((''nclude('' @ apos) @ a @ (''.urls'' @ apos @ '')'')) ('')'' @ rest) (includeMarker a)"
      by (simp add: includeMarker_def)
    also have "\<dots> = 1 + starts ((''nclude('' @ apos) @ a @ (''.urls'' @ apos @ '')'')) ('')'' @ rest)
          (includeMarker a)"
      by simp
    finally show ?thesis
      by (simp only: starts_append append_assoc)
  qed
  ultimately show ?thesis by simp
qed

lemma starts_before_import:
  assumes wa: "list_all isWordChar a"
    and no: "\<not> str_includes before (includeMarker a)"
  shows "starts before (''from '' @ rest) (includeMarker a) = 0"
proof (rule starts_zeroI)
  fix d assume d: "d \<noteq> []" "suffix d before"
  from no d(2) have nod: "\<not> str_includes d (includeMarker a)"
    using suffix_includes by blast
  show "\<not> prefix (includeMarker a) (d @ ''from '' @ rest)"
  proof
    assume "prefix (includeMarker a) (d @ ''from '' @ rest)"
    then consider "prefix (includeMarker a) d"
      | us where "includeMarker a = d @ us" "prefix us (''from '' @ rest)"
      by (auto simp: prefix_append)
    then show False
    proof cases
      case 1
      with nod show False by (simp add: prefix_includes)
    next
      case 2
      show False
      proof (cases "us = []")
        case True
        with 2(1) nod show False by (simp add: prefix_includes)
      next
        case False
        with 2(1) have l: "last us = CHR '')''"
          using last_includeMarker [of a] by simp
        from 2(1) have sub: "set us \<subseteq> set (includeMarker a)" by auto
        from 2(2) have "prefix us ''from '' \<or> (\<exists>vs. us = ''from '' @ vs \<and> prefix vs rest)"
          by (simp only: prefix_append)
        then consider "prefix us ''from ''" | vs where "us = ''from '' @ vs"
          by blast
        then show False
        proof cases
          case 1
          then have "us \<in> set (prefixes ''from '')" by (simp only: in_set_prefixes)
          then have "us = [] \<or> us = ''f'' \<or> us = ''fr'' \<or> us = ''fro'' \<or> us = ''from''
              \<or> us = ''from ''"
            by simp
          with False l show False by auto
        next
          case 2
          then have "CHR '' '' \<in> set us" by simp
          with sub space_not_in_includeMarker [OF wa] show False by auto
        qed
      qed
    qed
  qed
qed

lemma spliced_marker_once:
  assumes wa: "list_all isWordChar a"
    and no: "\<not> str_includes (before @ urlsAnchor @ after) (includeMarker a)"
  shows "occurrences (before @ includeReplacement a @ after) (includeMarker a) = 1"
proof -
  let ?M = "includeMarker a"
  let ?R1 = "''from django.urls import include\<newline>\<newline>urlpatterns = [\<newline>    path('' @ apos"
  let ?R2 = "''/'' @ apos @ '', ''"
  let ?t5 = "'')'' @ '','' @ after"
  from no have nb: "\<not> str_includes before ?M" and na: "\<not> str_includes after ?M"
    using includes_appendI1 includes_appendI2 by blast+
  have 6: "occurrences after ?M = 0"
    using na by (simp add: occurrences_zero)
  have 5: "occurrences ?t5 ?M = 0"
    using 6 by (simp add: includeMarker_Cons)
  have 4: "occurrences (?M @ ?t5) ?M = 1"
    using starts_marker_self [OF wa, of "'','' @ after"] 5
    by (simp only: occurrences_append)
  have "starts ?R2 (?M @ ?t5) ?M = 0"
    by (simp add: includeMarker_Cons)
  with 4 have 3: "occurrences (?R2 @ ?M @ ?t5) ?M = 1"
    by (simp only: occurrences_append)
  have "starts a (?R2 @ ?M @ ?t5) ?M = 0"
    using starts_in_word [OF wa, of "CHR ''/''"] by simp
  with 3 have 2: "occurrences (a @ ?R2 @ ?M @ ?t5) ?M = 1"
    by (simp only: occurrences_append)
  have "starts ?R1 ys ?M = 0" for ys
    by (simp add: includeMarker_Cons)
  with 2 have 1: "occurrences (?R1 @ a @ ?R2 @ ?M @ ?t5) ?M = 1"
    by (simp only: occurrences_append)
  have "starts before (?R1 @ a @ ?R2 @ ?M @ ?t5) ?M = 0"
    using starts_before_import [OF wa nb, of "''django.urls import include\<newline>\<newline>urlpatterns = [\<newline>    path('' @ apos @ a @ ?R2 @ ?M @ ?t5"]
    by simp
  with 1 have "occurrences (before @ ?R1 @ a @ ?R2 @ ?M @ ?t5) ?M = 1"
    by (simp only: occurrences_append)
  moreover have "before @ includeReplacement a @ after = before @ ?R1 @ a @ ?R2 @ ?M @ ?t5"
    by (simp add: includeReplacement_def includeMarker_def)
  ultimately show ?thesis by simp
qed

lemma spliced_includes_marker:
  "str_includes (before @ includeReplacement a @ after) (includeMarker a)"
proof -
  have "sublist (includeMarker a) (includeReplacement a)"
    unfolding includeReplacement_split sublist_def by (metis append_assoc)
  then show ?thesis
    by (auto simp: str_includes_sublist sublist_append)
qed

lemma template_paths [simp]:
  "\<not> prefix (indexHtmlPath ws p a) (templatesDir ws p a)"
  "\<not> prefix (viewsFilePath ws p a) (templatesDir ws p a)"
  "\<not> prefix (urlsFilePath ws p a) (templatesDir ws p a)"
  "butlast (indexHtmlPath ws p a) = templatesDir ws p a"
  "butlast (viewsFilePath ws p a) = appDir ws p a"
  "butlast (urlsFilePath ws p a) = appDir ws p a"
  "prefix (appDir ws p a) (templatesDir ws p a)"
  by (simp_all add: indexHtmlPath_def viewsFilePath_def urlsFilePath_def templatesDir_def
      path_join_def butlast_append)

lemma writeTemplateFiles_Inr:
  assumes "writeTemplateFiles ws p a w = Inr w4"
  shows "fs w4 =
      \<lparr>files = (files (fs w))
         (indexHtmlPath ws p a \<mapsto> indexHtmlContent a,
          viewsFilePath ws p a \<mapsto> viewsContent a,
          urlsFilePath ws p a \<mapsto> urlsContent),
       dirs = dirs (fs w) \<union> set (prefixes (templatesDir ws p a))\<rparr>"
    and "\<not> list_ex (\<lambda>q. q \<in> dom (files (fs w))) (prefixes (templatesDir ws p a))"
    and "indexHtmlPath ws p a \<notin> dirs (fs w)"
    and "viewsFilePath ws p a \<notin> dirs (fs w)"
    and "urlsFilePath ws p a \<notin> dirs (fs w)"
proof -
  from assms obtain w1 w2 w3 where
    m: "mkdirSync_recursive (templatesDir ws p a) w = Inr w1"
    and i: "writeFileSync (indexHtmlPath ws p a) (indexHtmlContent a) w1 = Inr w2"
    and v: "writeFileSync (viewsFilePath ws p a) (viewsContent a) w2 = Inr w3"
    and u: "writeFileSync (urlsFilePath ws p a) urlsContent w3 = Inr w4"
    by (auto simp: writeTemplateFiles_def and_then_Inr)
  note M = mkdirSync_recursive_Inr [OF m]
    and I = writeFileSync_Inr [OF i]
    and V = writeFileSync_Inr [OF v]
    and U = writeFileSync_Inr [OF u]
  have f1: "fs w1 = (fs w)\<lparr>dirs := dirs (fs w) \<union> set (prefixes (templatesDir ws p a))\<rparr>"
    using M(1) by simp
  have f2: "fs w2 = (fs w1)\<lparr>files := (files (fs w1))(indexHtmlPath ws p a \<mapsto> indexHtmlContent a)\<rparr>"
    using I(1) by simp
  have f3: "fs w3 = (fs w2)\<lparr>files := (files (fs w2))(viewsFilePath ws p a \<mapsto> viewsContent a)\<rparr>"
    using V(1) by simp
  have f4: "fs w4 = (fs w3)\<lparr>files := (files (fs w3))(urlsFilePath ws p a \<mapsto> urlsContent)\<rparr>"
    using U(1) by simp
  show "fs w4 =
      \<lparr>files = (files (fs w))
         (indexHtmlPath ws p a \<mapsto> indexHtmlContent a,
          viewsFilePath ws p a \<mapsto> viewsContent a,
          urlsFilePath ws p a \<mapsto> urlsContent),
       dirs = dirs (fs w) \<union> set (prefixes (templatesDir ws p a))\<rparr>"
    by (simp add: f1 f2 f3 f4)
  show "\<not> list_ex (\<lambda>q. q \<in> dom (files (fs w))) (prefixes (templatesDir ws p a))"
    by (rule M(2))
  show "indexHtmlPath ws p a \<notin> dirs (fs w)"
    using I(2) by (simp add: f1)
  show "viewsFilePath ws p a \<notin> dirs (fs w)"
    using V(2) by (simp add: f1 f2)
  show "urlsFilePath ws p a \<notin> dirs (fs w)"
    using U(2) by (simp add: f1 f2 f3)
qed

lemma writeTemplateFiles_succeeds:
  assumes "\<not> list_ex (\<lambda>q. q \<in> dom (files (fs w))) (prefixes (templatesDir ws p a))"
    and "indexHtmlPath ws p a \<notin> dirs (fs w)"
    and "viewsFilePath ws p a \<notin> dirs (fs w)"
    and "urlsFilePath ws p a \<notin> dirs (fs w)"
  shows "\<exists>w4. writeTemplateFiles ws p a w = Inr w4"
  using assms
  by (simp add: writeTemplateFiles_def and_then_def mkdirSync_recursive_def writeFileSync_def
      Let_def)

lemma setupIndexHtml_result:
  assumes "writeTemplateFiles ws p a w = Inr w1"
    and "readFileSync (projectUrlsFilePath ws p) w1 = Some c"
  shows "fs (setupIndexHtml ws p a w) =
      (fs w1)\<lparr>files := (files (fs w1))(projectUrlsFilePath ws p \<mapsto>
         (if str_includes c (includeMarker a) then c
          else str_replace c urlsAnchor (includeReplacement a)))\<rparr>"
proof (cases "str_includes c (includeMarker a)")
  case True
  with assms show ?thesis
    by (simp add: setupIndexHtml_after_templates registerAppUrls_present same_content_write
        showInformationMessage_def)
next
  case False
  with assms show ?thesis
    by (simp add: setupIndexHtml_after_templates registerAppUrls_absent
        showInformationMessage_def)
qed

text \<open>
  Claim C7 as stated fails: on a routing file without the anchor line two runs leave
  the content as it was, with no include directive at all.
\<close>

theorem setupIndexHtml_twice_no_anchor:
  "validateAppName ''posts'' = None
   \<and> readFileSync (projectUrlsFilePath [''ws''] ''blog'')
        (setupIndexHtml [''ws''] ''blog'' ''posts''
           (setupIndexHtml [''ws''] ''blog'' ''posts'' (projectWorld ''urlpatterns=[]'')))
       = Some ''urlpatterns=[]''
   \<and> occurrences ''urlpatterns=[]'' (includeMarker ''posts'') = 0"
  by (simp add: eval_defs validateAppName_def isWordChar_def)

text \<open>
  Claim C7, amended.  When the app name is one the prompt accepts, the template files
  have been written and the project's routing file then holds the anchor line and no
  include directive for the app, two runs of \<open>setupIndexHtml\<close> in a row leave the
  routing file with the anchor replaced once: the include directive for the app's
  \<open>urls\<close> module occurs in it exactly once.
\<close>

theorem setupIndexHtml_twice_one_include:
  assumes valid: "validateAppName a = None"
    and t: "writeTemplateFiles ws p a w = Inr w1"
    and r: "readFileSync (projectUrlsFilePath ws p) w1 = Some c"
    and anchor: "str_includes c urlsAnchor"
    and nomarker: "\<not> str_includes c (includeMarker a)"
  shows "readFileSync (projectUrlsFilePath ws p)
           (setupIndexHtml ws p a (setupIndexHtml ws p a w))
         = Some (str_replace c urlsAnchor (includeReplacement a))
    \<and> occurrences (str_replace c urlsAnchor (includeReplacement a)) (includeMarker a) = 1"
proof -
  let ?q = "projectUrlsFilePath ws p"
  let ?c' = "str_replace c urlsAnchor (includeReplacement a)"
  let ?w' = "setupIndexHtml ws p a w"
  let ?tdir = "templatesDir ws p a"
  let ?F = "\<lambda>f. f(indexHtmlPath ws p a \<mapsto> indexHtmlContent a,
          viewsFilePath ws p a \<mapsto> viewsContent a,
          urlsFilePath ws p a \<mapsto> urlsContent)"
  from valid have wa: "list_all isWordChar a"
    by (simp add: validateAppName_None)
  from anchor includeReplacement_plain [OF wa] obtain b af
    where c: "c = b @ urlsAnchor @ af" and c': "?c' = b @ includeReplacement a @ af"
    by (rule str_replace_plain)
  have marked: "str_includes ?c' (includeMarker a)"
    unfolding c' by (rule spliced_includes_marker)
  have once: "occurrences ?c' (includeMarker a) = 1"
    unfolding c' using wa nomarker [unfolded c] by (rule spliced_marker_once)
  note T = writeTemplateFiles_Inr [OF t]
  have fs': "fs ?w' = (fs w1)\<lparr>files := (files (fs w1))(?q \<mapsto> ?c')\<rparr>"
    using setupIndexHtml_result [OF t r] nomarker by simp
  from r have q1: "?q \<notin> dirs (fs w1)" "files (fs w1) ?q = Some c"
    by (simp_all add: readFileSync_def split: if_splits)
  have dom': "dom (files (fs ?w')) = dom (files (fs w1))"
    using q1(2) by (auto simp: fs')
  have dirs': "dirs (fs ?w') = dirs (fs w1)"
    by (simp add: fs')
  have "\<not> list_ex (\<lambda>q. q \<in> dom (files (fs ?w'))) (prefixes ?tdir)"
    using T(2) unfolding dom' by (auto simp: T(1) list_ex_iff)
  moreover have "indexHtmlPath ws p a \<notin> dirs (fs ?w')"
    "viewsFilePath ws p a \<notin> dirs (fs ?w')"
    "urlsFilePath ws p a \<notin> dirs (fs ?w')"
    using T(3-5) unfolding dirs' by (simp_all add: T(1))
  ultimately obtain w2 where t2: "writeTemplateFiles ws p a ?w' = Inr w2"
    using writeTemplateFiles_succeeds by blast
  note T2 = writeTemplateFiles_Inr [OF t2]
  have files1: "files (fs w1) = ?F (files (fs w))"
    by (simp add: T(1))
  have files2: "files (fs w2) = ?F ((?F (files (fs w)))(?q \<mapsto> ?c'))"
    by (simp add: T2(1) fs' files1)
  have dirs2: "dirs (fs w2) = dirs (fs w1)"
    by (auto simp: T2(1) dirs' T(1))
  have "files (fs w2) ?q = Some c \<or> files (fs w2) ?q = Some ?c'"
    using q1(2) unfolding files2 files1 by (auto split: if_splits)
  with q1(1) dirs2 consider (again) "readFileSync ?q w2 = Some c"
    | (kept) "readFileSync ?q w2 = Some ?c'"
    by (auto simp: readFileSync_def)
  then have "readFileSync ?q (setupIndexHtml ws p a ?w') = Some ?c'"
  proof cases
    case again
    from setupIndexHtml_result [OF t2 again] nomarker
    have "fs (setupIndexHtml ws p a ?w') = (fs w2)\<lparr>files := (files (fs w2))(?q \<mapsto> ?c')\<rparr>"
      by simp
    with again show ?thesis by (rule readFileSync_updated)
  next
    case kept
    from setupIndexHtml_result [OF t2 kept] marked
    have "fs (setupIndexHtml ws p a ?w') = (fs w2)\<lparr>files := (files (fs w2))(?q \<mapsto> ?c')\<rparr>"
      by simp
    with kept show ?thesis by (rule readFileSync_updated)
  qed
  with once show ?thesis by simp
qed

theorem setupIndexHtml_twice_one_include_witness:
  "validateAppName ''posts'' = None
   \<and> writeTemplateFiles [''ws''] ''blog'' ''posts'' (projectWorld generatedUrls)
       = Inr (finalWorld (writeTemplateFiles [''ws''] ''blog'' ''posts'' (projectWorld generatedUrls)))
   \<and> readFileSync (projectUrlsFilePath [''ws''] ''blog'')
        (finalWorld (writeTemplateFiles [''ws''] ''blog'' ''posts'' (projectWorld generatedUrls)))
       = Some generatedUrls
   \<and> str_includes generatedUrls urlsAnchor
   \<and> \<not> str_includes generatedUrls (includeMarker ''posts'')
   \<and> readFileSync (projectUrlsFilePath [''ws''] ''blog'')
        (setupIndexHtml [''ws''] ''blog'' ''posts''
           (setupIndexHtml [''ws''] ''blog'' ''posts'' (projectWorld generatedUrls)))
       = Some (''from django.urls import path\<newline>\<newline>from django.urls import include\<newline>\<newline>urlpatterns = [\<newline>    path(''
           @ apos @ ''posts/'' @ apos @ '', include('' @ apos @ ''posts.urls'' @ apos
           @ '')),\<newline>]\<newline>'')
   \<and> occurrences (''from django.urls import path\<newline>\<newline>from django.urls import include\<newline>\<newline>urlpatterns = [\<newline>    path(''
           @ apos @ ''posts/'' @ apos @ '', include('' @ apos @ ''posts.urls'' @ apos
           @ '')),\<newline>]\<newline>'') (includeMarker ''posts'') = 1"
proof -
  have 0: "validateAppName ''posts'' = None"
    by (simp add: validateAppName_def isWordChar_def)
  have 1: "writeTemplateFiles [''ws''] ''blog'' ''posts'' (projectWorld generatedUrls)
       = Inr (finalWorld (writeTemplateFiles [''ws''] ''blog'' ''posts'' (projectWorld generatedUrls)))"
    by (simp add: eval_defs)
  have 2: "readFileSync (projectUrlsFilePath [''ws''] ''blog'')
        (finalWorld (writeTemplateFiles [''ws''] ''blog'' ''posts'' (projectWorld generatedUrls)))
       = Some generatedUrls"
    by (simp add: eval_defs)
  have 3: "str_includes generatedUrls urlsAnchor"
    by (simp add: generatedUrls_def urlsAnchor_def)
  have 4: "\<not> str_includes generatedUrls (includeMarker ''posts'')"
    by (simp add: generatedUrls_def includeMarker_def)
  have 5: "str_replace generatedUrls urlsAnchor (includeReplacement ''posts'')
      = ''from django.urls import path\<newline>\<newline>from django.urls import include\<newline>\<newline>urlpatterns = [\<newline>    path(''
           @ apos @ ''posts/'' @ apos @ '', include('' @ apos @ ''posts.urls'' @ apos
           @ '')),\<newline>]\<newline>''"
    by (simp add: generatedUrls_def urlsAnchor_def includeReplacement_def str_replace_def)
  from setupIndexHtml_twice_one_include [OF 0 1 2 3 4] show ?thesis
    unfolding 5 using 0 1 2 3 4 by blast
qed

section \<open>The earlier pipeline: claim C9\<close>

lemma trace_showErrorMessage [simp]: "trace (showErrorMessage m w) = trace w @ [ShowError m]"
  by (simp add: showErrorMessage_def)

lemma trace_showInformationMessage [simp]:
  "trace (showInformationMessage m w) = trace w @ [ShowInfo m]"
  by (simp add: showInformationMessage_def)

lemma succeeded_error [simp]: "\<not> succeeded p (Inr (showErrorMessage m w))"
  by (simp add: succeeded_def)

lemma succeeded_throw [simp]: "\<not> succeeded p (Inl w)"
  by (simp add: succeeded_def)

lemma part_000_success_shape:
  assumes "succeeded p (setupDjangoWorkspace_part_000 run ws p a w)"
  obtains w5 w6 w7 w8 where
      "writeFileSync (path_join (path_join ws [p]) [''requirements.txt''])
        (str_join ''\<newline>'' requirements) w5 = Inr w6"
    and "mkdirSync_recursive (path_join (path_join ws [p]) [''.vscode'']) w6 = Inr w7"
    and "writeFileSync (path_join (path_join (path_join ws [p]) [''.vscode'']) [''settings.json''])
        settingsJson w7 = Inr w8"
    and "setupDjangoWorkspace_part_000 run ws p a w
        = Inr (showInformationMessage (setUpMessage p) w8)"
proof -
  note def = setupDjangoWorkspace_part_000_def
  from assms obtain w1 where e1: "execSync run ''python --version'' None w = Inr w1"
    unfolding def by (cases "execSync run ''python --version'' None w") simp_all
  from assms e1 have ne: "\<not> existsSync (path_join ws [p]) w1"
    unfolding def by (cases "existsSync (path_join ws [p]) w1") simp_all
  from assms e1 ne obtain w2 where
    e2: "execSync run (''django-admin startproject '' @ p) (Some ws) w1 = Inr w2"
    unfolding def
    by (cases "execSync run (''django-admin startproject '' @ p) (Some ws) w1") simp_all
  let ?app = "(if a \<noteq> []
     then
       (case execSync run (''python manage.py startapp '' @ a) (Some (path_join ws [p]))
               (showInformationMessage
                  (''Django project '' @ apos @ p @ apos @ '' created successfully!'') w2) of
          Inl w3 \<Rightarrow> Inl (showErrorMessage
            (''Failed to create the Django app '' @ apos @ a @ apos @ ''.'') w3)
        | Inr w3 \<Rightarrow> Inr (showInformationMessage
            (''Django app '' @ apos @ a @ apos @ '' created successfully in ''
               @ apos @ p @ apos @ ''!'') w3))
     else Inr (showInformationMessage
            (''Django project '' @ apos @ p @ apos @ '' created successfully!'') w2))"
  have app_err: "?app = Inl u \<Longrightarrow> \<exists>m u'. u = showErrorMessage m u'" for u
    by (auto split: if_splits sum.splits)
  from assms e1 ne e2 obtain w4 where e4: "?app = Inr w4"
    unfolding def by (cases ?app) (auto dest!: app_err)
  let ?venv = "and_then (execSync run ''python -m venv venv'' (Some (path_join ws [p])) w4)
      (execSync run ''pip install -r requirements.txt'' (Some (path_join ws [p])))"
  from assms e1 ne e2 e4 obtain w5 where e5: "?venv = Inr w5"
    unfolding def by (cases ?venv) simp_all
  let ?req = "writeFileSync (path_join (path_join ws [p]) [''requirements.txt''])
        (str_join ''\<newline>'' requirements) w5"
  from assms e1 ne e2 e4 e5 obtain w6 where e6: "?req = Inr w6"
    unfolding def by (cases ?req) simp_all
  let ?mk = "mkdirSync_recursive (path_join (path_join ws [p]) [''.vscode'']) w6"
  from assms e1 ne e2 e4 e5 e6 obtain w7 where e7: "?mk = Inr w7"
    unfolding def by (cases ?mk) simp_all
  let ?sj = "writeFileSync (path_join (path_join (path_join ws [p]) [''.vscode'']) [''settings.json''])
        settingsJson w7"
  from assms e1 ne e2 e4 e5 e6 e7 obtain w8 where e8: "?sj = Inr w8"
    unfolding def by (cases ?sj) simp_all
  from e1 ne e2 e4 e5 e6 e7 e8
  have "setupDjangoWorkspace_part_000 run ws p a w
        = Inr (showInformationMessage (setUpMessage p) w8)"
    unfolding def by simp
  with e6 e7 e8 show thesis by (rule that)
qed

text \<open>
  A run of the earlier pipeline that does reach its end leaves the two fixed dependency
  lines, joined by a line feed, in \<open>requirements.txt\<close> of the project directory.
\<close>

lemma part_000_requirements_when_succeeded:
  assumes "succeeded p (setupDjangoWorkspace_part_000 run ws p a w)"
  shows "readFileSync (path_join (path_join ws [p]) [''requirements.txt''])
           (finalWorld (setupDjangoWorkspace_part_000 run ws p a w))
         = Some ''Django==3.2.6\<newline>djangorestframework==3.12.4''"
proof -
  let ?pd = "path_join ws [p]"
  let ?req = "?pd @ [''requirements.txt'']"
  let ?vs = "?pd @ [''.vscode'']"
  from assms obtain w5 w6 w7 w8 where
      6: "writeFileSync ?req (str_join ''\<newline>'' requirements) w5 = Inr w6"
    and 7: "mkdirSync_recursive ?vs w6 = Inr w7"
    and 8: "writeFileSync (?vs @ [''settings.json'']) settingsJson w7 = Inr w8"
    and r: "setupDjangoWorkspace_part_000 run ws p a w
        = Inr (showInformationMessage (setUpMessage p) w8)"
    by (rule part_000_success_shape) (simp add: path_join_single)
  have content: "str_join ''\<newline>'' requirements = ''Django==3.2.6\<newline>djangorestframework==3.12.4''"
    by (simp add: requirements_def)
  have "files (fs w6) ?req = Some (str_join ''\<newline>'' requirements)" and "?req \<notin> dirs (fs w6)"
    using writeFileSync_Inr [OF 6] by simp_all
  moreover have "files (fs w7) = files (fs w6)" and "dirs (fs w7) = dirs (fs w6) \<union> set (prefixes ?vs)"
    using mkdirSync_recursive_Inr [OF 7] by simp_all
  moreover have "?req \<notin> set (prefixes ?vs)"
    by simp
  moreover have "files (fs w8) ?req = files (fs w7) ?req" and "dirs (fs w8) = dirs (fs w7)"
    using writeFileSync_Inr [OF 8] by simp_all
  ultimately have "readFileSync ?req w8 = Some (str_join ''\<newline>'' requirements)"
    by (simp add: readFileSync_def)
  with r content show ?thesis
    by (simp add: finalWorld_def path_join_single showInformationMessage_def)
qed

text \<open>
  Claim C9 fails on the code.  The pipeline runs the installer on \<open>requirements.txt\<close>
  in Step 4 and writes that file only in Step 5, in a project directory the generator
  has just created.  With an installer that fails when its manifest is missing, the run
  for \<open>blog\<close> and \<open>posts\<close> in an empty workspace stops at the virtual environment
  step with an error, never writes a file, and leaves no \<open>requirements.txt\<close>.
\<close>

theorem part_000_installer_before_manifest:
  "\<not> succeeded ''blog''
       (setupDjangoWorkspace_part_000 strictProcess [''ws''] ''blog'' ''posts'' emptyWorkspace)
   \<and> trace (finalWorld
        (setupDjangoWorkspace_part_000 strictProcess [''ws''] ''blog'' ''posts'' emptyWorkspace))
     = [Exec ''python --version'' None,
        Exec ''django-admin startproject blog'' (Some [''ws'']),
        ShowInfo (''Django project '' @ apos @ ''blog'' @ apos @ '' created successfully!''),
        Exec ''python manage.py startapp posts'' (Some [''ws'', ''blog'']),
        ShowInfo (''Django app '' @ apos @ ''posts'' @ apos @ '' created successfully in ''
           @ apos @ ''blog'' @ apos @ ''!''),
        Exec ''python -m venv venv'' (Some [''ws'', ''blog'']),
        Exec ''pip install -r requirements.txt'' (Some [''ws'', ''blog'']),
        ShowError ''Failed to set up the virtual environment.'']
   \<and> \<not> existsSync [''ws'', ''blog'', ''requirements.txt'']
        (finalWorld
          (setupDjangoWorkspace_part_000 strictProcess [''ws''] ''blog'' ''posts'' emptyWorkspace))"
  by (simp add: eval_defs strictProcess_def)

end
